theory Spec2Isabelle
  imports Main "HOL-Library.Word"
begin

section \<open>JavaScript strings\<close>

text \<open>
  A JavaScript string is a sequence of UTF-16 code units. The regular expressions of
  \<^verbatim>\<open>script.js\<close> carry no \<^verbatim>\<open>u\<close> flag, so they, like \<^verbatim>\<open>split\<close>, work code unit by
  code unit.
\<close>

type_synonym code_unit = "16 word"
type_synonym js_string = "code_unit list"

definition js :: "string \<Rightarrow> js_string" where
  \<comment> \<open>the string literal with the given ASCII text\<close>
  "js s = map (\<lambda>c. of_nat (of_char c)) s"

definition SLASH :: code_unit where "SLASH = 0x2F"
definition HYPHEN :: code_unit where "HYPHEN = 0x2D"
definition UNDERSCORE :: code_unit where "UNDERSCORE = 0x5F"
definition SPACE :: code_unit where "SPACE = 0x20"

definition is_upper :: "code_unit \<Rightarrow> bool" where
  "is_upper c = (0x41 \<le> c \<and> c \<le> 0x5A)"

definition is_lower :: "code_unit \<Rightarrow> bool" where
  "is_lower c = (0x61 \<le> c \<and> c \<le> 0x7A)"

definition is_digit :: "code_unit \<Rightarrow> bool" where
  "is_digit c = (0x30 \<le> c \<and> c \<le> 0x39)"

definition is_ascii :: "code_unit \<Rightarrow> bool" where
  "is_ascii c = (c \<le> 0x7F)"

definition is_white_space :: "code_unit \<Rightarrow> bool" where
  \<comment> \<open>the class \<^verbatim>\<open>\s\<close>: the white space and line terminator code points of ECMAScript\<close>
  "is_white_space c =
     (c \<in> {0x09, 0x0A, 0x0B, 0x0C, 0x0D, 0x20, 0xA0, 0x1680, 0x2028, 0x2029,
            0x202F, 0x205F, 0x3000, 0xFEFF}
      \<or> (0x2000 \<le> c \<and> c \<le> 0x200A))"

definition ascii_lower :: "code_unit \<Rightarrow> code_unit" where
  "ascii_lower c = (if is_upper c then c + 0x20 else c)"

section \<open>Helpers\<close>

subsection \<open>The string methods used by \<^verbatim>\<open>script.js\<close>\<close>

definition replace_unit :: "code_unit \<Rightarrow> code_unit \<Rightarrow> js_string \<Rightarrow> js_string" where
  \<comment> \<open>\<^verbatim>\<open>s.replace(/a/g, 'b')\<close> for a pattern \<^verbatim>\<open>a\<close> that matches one fixed code unit\<close>
  "replace_unit a b s = map (\<lambda>c. if c = a then b else c) s"

function replace_ws_runs :: "js_string \<Rightarrow> js_string" where
  \<comment> \<open>\<^verbatim>\<open>s.replace(/\s+/g, '-')\<close>: the greedy match takes a whole run of white space\<close>
  "replace_ws_runs [] = []"
| "replace_ws_runs (c # cs) =
     (if is_white_space c then HYPHEN # replace_ws_runs (dropWhile is_white_space cs)
      else c # replace_ws_runs cs)"
  by pat_completeness auto
termination
  by (relation "measure length") (auto simp: length_dropWhile_le less_Suc_eq_le)

definition is_kept :: "code_unit \<Rightarrow> bool" where
  \<comment> \<open>the class \<^verbatim>\<open>[A-Za-z0-9-_]\<close>\<close>
  "is_kept c = (is_upper c \<or> is_lower c \<or> is_digit c \<or> c = HYPHEN \<or> c = UNDERSCORE)"

definition strip_unkept :: "js_string \<Rightarrow> js_string" where
  \<comment> \<open>\<^verbatim>\<open>s.replace(/[^A-Za-z0-9-_]/g, '')\<close>\<close>
  "strip_unkept s = filter is_kept s"

definition toLowerCase :: "(js_string \<Rightarrow> js_string) \<Rightarrow> js_string \<Rightarrow> js_string" where
  \<comment> \<open>On a string of ASCII code units \<^verbatim>\<open>toLowerCase\<close> maps \<^verbatim>\<open>A-Z\<close> to \<^verbatim>\<open>a-z\<close> and keeps
      the rest. On any other string it follows the engine's Unicode case tables, which
      are the parameter \<open>unicode_lower\<close>.\<close>
  "toLowerCase unicode_lower s =
     (if list_all is_ascii s then map ascii_lower s else unicode_lower s)"

fun split_on :: "code_unit \<Rightarrow> js_string \<Rightarrow> js_string list" where
  \<comment> \<open>\<^verbatim>\<open>s.split(sep)\<close> for a separator of one code unit\<close>
  "split_on sep [] = [[]]"
| "split_on sep (c # cs) =
     (if c = sep then [] # split_on sep cs
      else (case split_on sep cs of
              [] \<Rightarrow> [[c]]
            | seg # segs \<Rightarrow> (c # seg) # segs))"

definition pop :: "'a list \<Rightarrow> 'a option" where
  \<comment> \<open>\<^verbatim>\<open>Array.prototype.pop\<close>: the last element, \<^verbatim>\<open>undefined\<close> on an empty array\<close>
  "pop xs = (if xs = [] then None else Some (last xs))"

subsection \<open>\<^verbatim>\<open>sanitizeTestId\<close> and \<^verbatim>\<open>prettyLabelFromTimezone\<close>\<close>

definition sanitizeTestId :: "(js_string \<Rightarrow> js_string) \<Rightarrow> js_string \<Rightarrow> js_string" where
  "sanitizeTestId unicode_lower tz =
     toLowerCase unicode_lower
       (strip_unkept (replace_ws_runs (replace_unit SLASH HYPHEN tz)))"

definition prettyLabelFromTimezone :: "js_string \<Rightarrow> js_string" where
  \<comment> \<open>\<^verbatim>\<open>part ? ... : tz\<close>: \<^verbatim>\<open>undefined\<close> and the empty string are the falsy values\<close>
  "prettyLabelFromTimezone tz =
     (case pop (split_on SLASH tz) of
        None \<Rightarrow> tz
      | Some part \<Rightarrow> if part \<noteq> [] then replace_unit UNDERSCORE SPACE part else tz)"

definition last_segment :: "js_string \<Rightarrow> js_string" where
  \<comment> \<open>what follows the last \<^verbatim>\<open>/\<close> of the string, the whole string when it has none\<close>
  "last_segment tz = rev (takeWhile (\<lambda>c. c \<noteq> SLASH) (rev tz))"

definition is_key_unit :: "code_unit \<Rightarrow> bool" where
  \<comment> \<open>a lowercase letter, a digit, a hyphen or an underscore\<close>
  "is_key_unit c = (is_lower c \<or> is_digit c \<or> c = HYPHEN \<or> c = UNDERSCORE)"

section \<open>The platform\<close>

text \<open>
  The script reads four things from its runtime: the global \<^verbatim>\<open>Intl\<close>, the list
  \<^verbatim>\<open>Intl.supportedValuesOf('timeZone')\<close>, the strings of \<^verbatim>\<open>Intl.DateTimeFormat\<close>, and the
  clock \<^verbatim>\<open>new Date()\<close>. The first three are fields of a record. The instant read from the
  clock, in milliseconds since the epoch, is an argument \<open>now\<close> of every function that
  reaches \<^verbatim>\<open>new Date()\<close>.
\<close>

datatype js_error = ReferenceError | TypeError | RangeError | PlatformError

datatype intl_global =
    IntlAbsent  \<comment> \<open>no such global: \<^verbatim>\<open>typeof Intl\<close> is \<^verbatim>\<open>'undefined'\<close>\<close>
  | IntlNull  \<comment> \<open>\<^verbatim>\<open>Intl === null\<close>, whose \<^verbatim>\<open>typeof\<close> is \<^verbatim>\<open>'object'\<close> too\<close>
  | IntlObject

definition typeof_object :: "intl_global \<Rightarrow> bool" where
  \<comment> \<open>\<^verbatim>\<open>typeof Intl === 'object'\<close>\<close>
  "typeof_object g = (g = IntlNull \<or> g = IntlObject)"

record platform =
  Intl :: intl_global
  supportedValuesOf :: "(js_error + js_string list) option"
  resolves :: "js_string \<Rightarrow> bool"
  time_string :: "js_string \<Rightarrow> int \<Rightarrow> js_string"
  date_string :: "js_string \<Rightarrow> int \<Rightarrow> js_string"
  unicode_lower :: "js_string \<Rightarrow> js_string"

text \<open>
  \<^item> \<open>Intl\<close>: the global is absent, is \<^verbatim>\<open>null\<close>, or is the object of ECMA-402. The next
    four fields describe that object, and the script reaches them only when the global is
    the object.
  \<^item> \<open>supportedValuesOf\<close>: \<open>None\<close> when \<^verbatim>\<open>typeof Intl.supportedValuesOf\<close> is not
    \<^verbatim>\<open>'function'\<close>, else what the call \<^verbatim>\<open>Intl.supportedValuesOf('timeZone')\<close> does: it
    throws (\<open>Inl\<close>) or returns an array (\<open>Inr\<close>).
  \<^item> \<open>resolves tz\<close>: \<^verbatim>\<open>new Intl.DateTimeFormat([], {timeZone: tz, ...})\<close> accepts \<open>tz\<close>;
    it throws a \<^verbatim>\<open>RangeError\<close> otherwise.
  \<^item> \<open>time_string tz now\<close> and \<open>date_string tz now\<close>: what the two formatters of
    \<^verbatim>\<open>formatForTimezone\<close> return for the instant \<open>now\<close>.
  \<^item> \<open>unicode_lower\<close>: \<^verbatim>\<open>toLowerCase\<close> on strings with a code unit outside ASCII.
\<close>

definition fallback_zones :: "js_string list" where
  "fallback_zones = map js
     [''Pacific/Auckland'', ''Australia/Brisbane'', ''Asia/Tokyo'', ''Asia/Kolkata'',
      ''Europe/London'', ''Europe/Paris'', ''Europe/Berlin'', ''America/New_York'',
      ''America/Los_Angeles'', ''America/Chicago'', ''America/Denver'', ''UTC'']"

definition getAllTimeZones :: "platform \<Rightarrow> js_error + js_string list" where
  \<comment> \<open>The condition of the \<^verbatim>\<open>if\<close> is outside the \<^verbatim>\<open>try\<close>: when \<^verbatim>\<open>Intl\<close> is \<^verbatim>\<open>null\<close> its
      first half holds and reading \<^verbatim>\<open>Intl.supportedValuesOf\<close> throws a \<^verbatim>\<open>TypeError\<close>. Inside
      the \<^verbatim>\<open>try\<close>, \<^verbatim>\<open>catch(e){}\<close> swallows the error and control falls through to the
      fallback.\<close>
  "getAllTimeZones p =
     (if \<not> typeof_object (Intl p) then Inr fallback_zones
      else if Intl p = IntlNull then Inl TypeError
      else if supportedValuesOf p = None then Inr fallback_zones
      else (case supportedValuesOf p of
              Some (Inr zones) \<Rightarrow> Inr zones
            | _ \<Rightarrow> Inr fallback_zones))"

definition catalog :: "platform \<Rightarrow> js_string list" where
  \<comment> \<open>the identifiers \<^verbatim>\<open>getAllTimeZones\<close> returns; none when it throws\<close>
  "catalog p = (case getAllTimeZones p of Inl e \<Rightarrow> [] | Inr zones \<Rightarrow> zones)"

definition enumeration_contract :: "platform \<Rightarrow> bool" where
  \<comment> \<open>ECMA-402 on \<^verbatim>\<open>Intl.supportedValuesOf\<close>: the array it returns has no duplicates,
      and it is not empty since every implementation supports at least one time zone\<close>
  "enumeration_contract p =
     (case supportedValuesOf p of
        Some (Inr zones) \<Rightarrow> zones \<noteq> [] \<and> distinct zones
      | _ \<Rightarrow> True)"

record display_strings =
  time :: js_string
  date :: js_string

definition formatForTimezone :: "platform \<Rightarrow> int \<Rightarrow> js_string \<Rightarrow> js_error + display_strings" where
  \<comment> \<open>both formatters get the same \<open>now\<close> and the same \<open>timezone\<close>; the constructor is
      what throws\<close>
  "formatForTimezone p now timezone =
     (if Intl p = IntlAbsent then Inl ReferenceError
      else if Intl p = IntlNull then Inl TypeError
      else if \<not> resolves p timezone then Inl RangeError
      else Inr \<lparr>time = time_string p timezone now, date = date_string p timezone now\<rparr>)"

section \<open>The page\<close>

text \<open>
  The markup is not part of the script, so it is a parameter: the texts of the three output
  elements, the \<^verbatim>\<open>.city\<close> buttons of the top row and the children of the time zone bar.
  It is taken to have the elements \<^verbatim>\<open>clock\<close>, \<^verbatim>\<open>city-name\<close>, \<^verbatim>\<open>date\<close> and \<^verbatim>\<open>timezone-bar\<close>
  that the script looks up by id.
  Of a button the model keeps what the script reads or writes: \<^verbatim>\<open>dataset.timezone\<close>
  (\<open>None\<close> when the attribute is missing), \<^verbatim>\<open>dataset.testid\<close>, \<^verbatim>\<open>textContent\<close>, \<^verbatim>\<open>title\<close>,
  whether \<^verbatim>\<open>classList\<close> holds \<^verbatim>\<open>'active'\<close>, the attribute \<^verbatim>\<open>aria-pressed\<close>, and its click
  listeners in the order they were added. \<^verbatim>\<open>document.querySelectorAll('.tz-btn')\<close> is the
  list of the bar's children: the script gives that class to the buttons it appends to the
  bar, and the markup is taken to have no other element of that class.
\<close>

datatype listener =
    SelectCaptured js_string  \<comment> \<open>\<^verbatim>\<open>() => selectTimezone(tz)\<close>, \<^verbatim>\<open>tz\<close> captured by the closure\<close>
  | SelectOwn  \<comment> \<open>the listener of \<^verbatim>\<open>initCoreButtons\<close>, which reads \<^verbatim>\<open>btn.dataset.timezone\<close>\<close>

record button =
  data_timezone :: "js_string option"
  data_testid :: "js_string option"
  textContent :: js_string
  title :: "js_string option"
  active :: bool
  aria_pressed :: "js_string option"
  listeners :: "listener list"

record page =
  clock_text :: js_string
  city_name_text :: js_string
  date_text :: js_string
  city_buttons :: "button list"
  bar_children :: "button list"

section \<open>State and rendering\<close>

record state =
  selectedTimezone :: js_string
  clockEl :: js_string
  cityNameEl :: js_string
  dateEl :: js_string
  coreCityButtons :: "button list"
  timezoneBarEl :: "button list"
  interval :: bool

text \<open>
  \<open>clockEl\<close>, \<open>cityNameEl\<close> and \<open>dateEl\<close> hold the \<^verbatim>\<open>textContent\<close> of the three elements,
  \<open>timezoneBarEl\<close> the children of the bar, and \<open>interval\<close> tells whether
  \<^verbatim>\<open>setInterval(updateClock, 1000)\<close> has run.
\<close>

definition default_timezone :: js_string where
  "default_timezone = js ''Australia/Brisbane''"

definition script_start :: "page \<Rightarrow> state" where
  \<comment> \<open>lines 8 to 13; no listener is attached before the script runs\<close>
  "script_start pg =
     \<lparr>selectedTimezone = default_timezone,
      clockEl = clock_text pg,
      cityNameEl = city_name_text pg,
      dateEl = date_text pg,
      coreCityButtons = map (\<lambda>b. b\<lparr>listeners := []\<rparr>) (city_buttons pg),
      timezoneBarEl = map (\<lambda>b. b\<lparr>listeners := []\<rparr>) (bar_children pg),
      interval = False\<rparr>"

definition updateClock :: "platform \<Rightarrow> int \<Rightarrow> state \<Rightarrow> state \<times> js_error option" where
  \<comment> \<open>the second component is the error the call ends with, if it throws\<close>
  "updateClock p now s =
     (case formatForTimezone p now (selectedTimezone s) of
        Inl e \<Rightarrow> (s, Some e)
      | Inr d \<Rightarrow> (s\<lparr>clockEl := time d, dateEl := date d\<rparr>, None))"

definition mark_city :: "js_string \<Rightarrow> button \<Rightarrow> button" where
  "mark_city sel btn =
     (if data_timezone btn = Some sel
      then btn\<lparr>active := True, aria_pressed := Some (js ''true'')\<rparr>
      else btn\<lparr>active := False, aria_pressed := Some (js ''false'')\<rparr>)"

definition mark_tz :: "js_string \<Rightarrow> button \<Rightarrow> button" where
  "mark_tz sel b = (if data_timezone b = Some sel then b\<lparr>active := True\<rparr> else b\<lparr>active := False\<rparr>)"

definition updateActiveStates :: "state \<Rightarrow> state" where
  "updateActiveStates s =
     s\<lparr>coreCityButtons := map (mark_city (selectedTimezone s)) (coreCityButtons s),
       timezoneBarEl := map (mark_tz (selectedTimezone s)) (timezoneBarEl s)\<rparr>"

definition updateCityName :: "state \<Rightarrow> state" where
  "updateCityName s = s\<lparr>cityNameEl := prettyLabelFromTimezone (selectedTimezone s)\<rparr>"

definition selectTimezone :: "platform \<Rightarrow> int \<Rightarrow> js_string \<Rightarrow> state \<Rightarrow> state \<times> js_error option" where
  "selectTimezone p now tz s =
     updateClock p now (updateActiveStates (updateCityName (s\<lparr>selectedTimezone := tz\<rparr>)))"

definition new_tz_button :: "platform \<Rightarrow> js_string \<Rightarrow> button" where
  \<comment> \<open>the body of the \<^verbatim>\<open>forEach\<close> of \<^verbatim>\<open>buildTimezoneBar\<close>\<close>
  "new_tz_button p tz =
     \<lparr>data_timezone = Some tz,
      data_testid = Some (sanitizeTestId (unicode_lower p) tz),
      textContent = prettyLabelFromTimezone tz,
      title = Some tz,
      active = False,
      aria_pressed = None,
      listeners = [SelectCaptured tz]\<rparr>"

definition buildTimezoneBar :: "platform \<Rightarrow> state \<Rightarrow> state \<times> js_error option" where
  \<comment> \<open>\<^verbatim>\<open>getAllTimeZones\<close> is called first: when it throws the bar is left as it was.
      \<^verbatim>\<open>innerHTML = ''\<close> removes the children the bar had.\<close>
  "buildTimezoneBar p s =
     (case getAllTimeZones p of
        Inl e \<Rightarrow> (s, Some e)
      | Inr zones \<Rightarrow> (s\<lparr>timezoneBarEl := map (new_tz_button p) zones\<rparr>, None))"

definition initCoreButtons :: "state \<Rightarrow> state" where
  "initCoreButtons s =
     s\<lparr>coreCityButtons := map (\<lambda>btn. btn\<lparr>listeners := listeners btn @ [SelectOwn]\<rparr>) (coreCityButtons s)\<rparr>"

definition init :: "platform \<Rightarrow> int \<Rightarrow> state \<Rightarrow> state \<times> js_error option" where
  \<comment> \<open>a call that throws ends \<^verbatim>\<open>init\<close>: when \<^verbatim>\<open>buildTimezoneBar\<close> throws nothing else
      runs, and when \<^verbatim>\<open>updateClock\<close> throws \<^verbatim>\<open>setInterval\<close> is not reached\<close>
  "init p now s =
     (case buildTimezoneBar p s of
        (s1, Some e) \<Rightarrow> (s1, Some e)
      | (s1, None) \<Rightarrow>
          (case updateClock p now (updateActiveStates (updateCityName (initCoreButtons s1))) of
             (s', None) \<Rightarrow> (s'\<lparr>interval := True\<rparr>, None)
           | (s', Some e) \<Rightarrow> (s', Some e)))"

definition loaded :: "platform \<Rightarrow> int \<Rightarrow> page \<Rightarrow> state" where
  \<comment> \<open>the state once the script has run to its end\<close>
  "loaded p now pg = fst (init p now (script_start pg))"

section \<open>Events\<close>

text \<open>
  After the script has run, the state changes only in the callbacks it registered: the
  click listeners of the buttons and the interval timer. An error thrown in a callback
  ends that callback and leaves the writes made before it.
\<close>

datatype event = ClickCity nat | ClickZone nat | Tick

definition run_listener :: "platform \<Rightarrow> int \<Rightarrow> button \<Rightarrow> listener \<Rightarrow> state \<Rightarrow> state" where
  "run_listener p now btn l s =
     (case l of
        SelectCaptured tz \<Rightarrow> fst (selectTimezone p now tz s)
      | SelectOwn \<Rightarrow>
          (case data_timezone btn of
             None \<Rightarrow> s
           | Some tz \<Rightarrow> if tz \<noteq> [] then fst (selectTimezone p now tz s) else s))"

definition click :: "platform \<Rightarrow> int \<Rightarrow> button \<Rightarrow> state \<Rightarrow> state" where
  "click p now btn s = fold (run_listener p now btn) (listeners btn) s"

definition step :: "platform \<Rightarrow> int \<times> event \<Rightarrow> state \<Rightarrow> state" where
  \<comment> \<open>an event comes with the instant the clock shows when its callback runs\<close>
  "step p ev s =
     (case ev of
        (now, ClickCity i) \<Rightarrow>
          if i < length (coreCityButtons s) then click p now (coreCityButtons s ! i) s else s
      | (now, ClickZone i) \<Rightarrow>
          if i < length (timezoneBarEl s) then click p now (timezoneBarEl s ! i) s else s
      | (now, Tick) \<Rightarrow> if interval s then fst (updateClock p now s) else s)"

definition run :: "platform \<Rightarrow> (int \<times> event) list \<Rightarrow> state \<Rightarrow> state" where
  "run p evs s = fold (step p) evs s"

definition controls :: "state \<Rightarrow> button list" where
  \<comment> \<open>all selectable controls: the top row, then the bar\<close>
  "controls s = coreCityButtons s @ timezoneBarEl s"

definition city_zones :: "page \<Rightarrow> js_string list" where
  \<comment> \<open>the identifiers a click on a top-row button can select: its \<^verbatim>\<open>data-timezone\<close>, when
      it has one and it is not empty\<close>
  "city_zones pg =
     filter (\<lambda>tz. tz \<noteq> []) (List.map_filter data_timezone (city_buttons pg))"

definition wired :: "platform \<Rightarrow> page \<Rightarrow> state \<Rightarrow> bool" where
  \<comment> \<open>what \<^verbatim>\<open>init\<close> sets up for good: one bar button per catalog entry, in order, with
      its own listener, and the top row of the markup with the listener of
      \<^verbatim>\<open>initCoreButtons\<close>\<close>
  "wired p pg s =
     (map data_timezone (timezoneBarEl s) = map Some (catalog p)
      \<and> map listeners (timezoneBarEl s) = map (\<lambda>tz. [SelectCaptured tz]) (catalog p)
      \<and> map data_timezone (coreCityButtons s) = map data_timezone (city_buttons pg)
      \<and> map listeners (coreCityButtons s) = map (\<lambda>b. [SelectOwn]) (city_buttons pg))"

definition stalled :: "state \<Rightarrow> bool" where
  \<comment> \<open>what is left when \<^verbatim>\<open>init\<close> ends in \<^verbatim>\<open>buildTimezoneBar\<close>: no listener, no timer\<close>
  "stalled s =
     (list_all (\<lambda>b. listeners b = []) (coreCityButtons s)
      \<and> list_all (\<lambda>b. listeners b = []) (timezoneBarEl s)
      \<and> \<not> interval s)"

section \<open>Sample inputs\<close>

definition sample_platform :: "(js_error + js_string list) option \<Rightarrow> platform" where
  \<comment> \<open>a runtime with \<^verbatim>\<open>Intl\<close> that resolves every identifier; the argument says what
      \<^verbatim>\<open>Intl.supportedValuesOf\<close> is\<close>
  "sample_platform enum =
     \<lparr>Intl = IntlObject, supportedValuesOf = enum, resolves = (\<lambda>tz. True),
      time_string = (\<lambda>tz now. js ''12:00:00''),
      date_string = (\<lambda>tz now. js ''Jan 1, 2024''),
      unicode_lower = (\<lambda>s. s)\<rparr>"

definition city_button :: "string \<Rightarrow> button" where
  \<comment> \<open>\<^verbatim>\<open><button class="city" data-timezone="..."></button>\<close>\<close>
  "city_button tz =
     \<lparr>data_timezone = Some (js tz), data_testid = None, textContent = [], title = None,
      active = False, aria_pressed = None, listeners = []\<rparr>"

definition sample_page :: "button list \<Rightarrow> page" where
  "sample_page btns =
     \<lparr>clock_text = [], city_name_text = [], date_text = [], city_buttons = btns,
      bar_children = []\<rparr>"

section \<open>Facts about code units and the string methods\<close>

lemmas unit_defs = SLASH_def HYPHEN_def UNDERSCORE_def SPACE_def is_upper_def is_lower_def
  is_digit_def is_ascii_def is_white_space_def is_kept_def ascii_lower_def

lemma is_kept_ascii: "is_kept c \<Longrightarrow> is_ascii c"
  by (auto simp: unit_defs word_le_nat_alt)

lemma is_kept_lower: "is_kept c \<Longrightarrow> is_key_unit (ascii_lower c)"
  by (auto simp: unit_defs is_key_unit_def word_le_nat_alt unat_word_ariths)

lemma ascii_lower_hyphen: "ascii_lower c = HYPHEN \<longleftrightarrow> c = HYPHEN"
  by (auto simp: unit_defs word_le_nat_alt unat_word_ariths)

lemma key_unit_facts:
  "is_key_unit c \<Longrightarrow> is_kept c \<and> \<not> is_upper c \<and> \<not> is_white_space c \<and> c \<noteq> SLASH"
  by (auto simp: unit_defs is_key_unit_def word_le_nat_alt)

lemma white_space_not_kept: "is_white_space c \<Longrightarrow> \<not> is_kept c"
  by (auto simp: unit_defs word_le_nat_alt)

lemma slash_not_kept: "\<not> is_kept SLASH"
  by (simp add: unit_defs)

lemma replace_unit_absent: "a \<notin> set s \<Longrightarrow> replace_unit a b s = s"
  by (induction s) (auto simp: replace_unit_def)

lemma replace_ws_runs_none: "\<forall>c\<in>set s. \<not> is_white_space c \<Longrightarrow> replace_ws_runs s = s"
  by (induction s) auto

lemma toLowerCase_kept: "list_all is_kept s \<Longrightarrow> toLowerCase lc s = map ascii_lower s"
  by (simp add: toLowerCase_def list_all_iff is_kept_ascii)

lemma split_on_nonempty: "split_on sep s \<noteq> []"
  by (induction s) (auto split: list.splits)

lemma split_on_no_sep: "sep \<notin> set s \<Longrightarrow> split_on sep s = [s]"
  by (induction s) auto

lemma split_on_sep: "sep \<in> set s \<Longrightarrow> \<exists>a b r. split_on sep s = a # b # r"
  by (induction s) (auto split: list.splits simp: split_on_nonempty neq_Nil_conv)

text \<open>The element that \<^verbatim>\<open>pop\<close> takes from the array of \<^verbatim>\<open>split\<close> is the text after the last
  separator.\<close>

lemma last_split_on: "last (split_on sep s) = rev (takeWhile (\<lambda>c. c \<noteq> sep) (rev s))"
proof (induction s)
  case Nil
  show ?case by simp
next
  case (Cons c cs)
  show ?case
  proof (cases "sep \<in> set cs")
    case True
    then obtain a b r where "split_on sep cs = a # b # r"
      using split_on_sep by blast
    with Cons True show ?thesis
      by (auto simp: takeWhile_append split_on_nonempty)
  next
    case False
    then show ?thesis
      by (auto simp: split_on_no_sep takeWhile_append)
  qed
qed

lemma last_segment_no_sep: "SLASH \<notin> set tz \<Longrightarrow> last_segment tz = tz"
proof -
  assume "SLASH \<notin> set tz"
  then have "takeWhile (\<lambda>c. c \<noteq> SLASH) (rev tz) = rev tz"
    by (intro takeWhile_eq_all_conv [THEN iffD2]) auto
  then show ?thesis by (simp only: last_segment_def rev_rev_ident)
qed

lemma last_segment_empty_iff: "last_segment tz = [] \<longleftrightarrow> tz = [] \<or> last tz = SLASH"
  by (cases tz rule: rev_cases) (auto simp: last_segment_def)

section \<open>\<^verbatim>\<open>prettyLabelFromTimezone\<close>\<close>

lemma prettyLabel_segment:
  "prettyLabelFromTimezone tz =
     (if last_segment tz = [] then tz else replace_unit UNDERSCORE SPACE (last_segment tz))"
  by (simp add: prettyLabelFromTimezone_def pop_def split_on_nonempty last_split_on
      last_segment_def)

text \<open>
  C3, as the specification states it, says that an identifier without a separator comes back
  unchanged. The identifier \<^verbatim>\<open>New_York\<close> has no separator and comes back as \<^verbatim>\<open>New York\<close>:
  the replacement of underscores runs on the last segment, which is then the whole
  identifier.
\<close>

theorem prettyLabelFromTimezone_no_separator_counterexample:
  "SLASH \<notin> set (js ''New_York'')
   \<and> prettyLabelFromTimezone (js ''New_York'') = js ''New York''
   \<and> prettyLabelFromTimezone (js ''New_York'') \<noteq> js ''New_York''"
  by (simp add: prettyLabelFromTimezone_def pop_def replace_unit_def js_def unit_defs)

text \<open>
  C3, amended. \<^verbatim>\<open>prettyLabelFromTimezone\<close> is a function of the identifier alone. When the
  text after the last \<^verbatim>\<open>/\<close> is not empty, the result is that text with every underscore
  replaced by a space; when it is empty, the result is the identifier itself. An identifier
  without \<^verbatim>\<open>/\<close> is its own last segment, so it comes back with its underscores replaced by
  spaces, and unchanged when it has no underscore either. The three examples of the
  specification hold.
\<close>

theorem prettyLabelFromTimezone_last_segment:
  "prettyLabelFromTimezone tz =
     (if last_segment tz = [] then tz else replace_unit UNDERSCORE SPACE (last_segment tz))
   \<and> (SLASH \<notin> set tz \<longrightarrow> prettyLabelFromTimezone tz = replace_unit UNDERSCORE SPACE tz)
   \<and> (SLASH \<notin> set tz \<and> UNDERSCORE \<notin> set tz \<longrightarrow> prettyLabelFromTimezone tz = tz)
   \<and> prettyLabelFromTimezone (js ''Australia/Brisbane'') = js ''Brisbane''
   \<and> prettyLabelFromTimezone (js ''America/New_York'') = js ''New York''
   \<and> prettyLabelFromTimezone (js ''UTC'') = js ''UTC''"
proof -
  have seg: "prettyLabelFromTimezone tz =
     (if last_segment tz = [] then tz else replace_unit UNDERSCORE SPACE (last_segment tz))"
    by (rule prettyLabel_segment)
  have whole: "prettyLabelFromTimezone tz = replace_unit UNDERSCORE SPACE tz"
    if "SLASH \<notin> set tz"
    using that by (auto simp: seg last_segment_no_sep replace_unit_def)
  have same: "prettyLabelFromTimezone tz = tz" if "SLASH \<notin> set tz" "UNDERSCORE \<notin> set tz"
    using that by (simp add: whole replace_unit_absent)
  have brisbane: "prettyLabelFromTimezone (js ''Australia/Brisbane'') = js ''Brisbane''"
    by (simp add: prettyLabelFromTimezone_def pop_def replace_unit_def js_def unit_defs)
  have new_york: "prettyLabelFromTimezone (js ''America/New_York'') = js ''New York''"
    by (simp add: prettyLabelFromTimezone_def pop_def replace_unit_def js_def unit_defs)
  have utc: "prettyLabelFromTimezone (js ''UTC'') = js ''UTC''"
    by (simp add: prettyLabelFromTimezone_def pop_def replace_unit_def js_def unit_defs)
  from seg whole same brisbane new_york utc show ?thesis by blast
qed

theorem prettyLabelFromTimezone_last_segment_witness:
  "SLASH \<notin> set (js ''EST5EDT'') \<and> UNDERSCORE \<notin> set (js ''EST5EDT'')
   \<and> prettyLabelFromTimezone (js ''EST5EDT'') = js ''EST5EDT''
   \<and> last_segment (js ''America/Port_of_Spain'') = js ''Port_of_Spain''
   \<and> prettyLabelFromTimezone (js ''America/Port_of_Spain'') = js ''Port of Spain''"
  using prettyLabelFromTimezone_last_segment [of "js ''EST5EDT''"]
    prettyLabelFromTimezone_last_segment [of "js ''America/Port_of_Spain''"]
  by (simp add: js_def unit_defs last_segment_def replace_unit_def)

text \<open>
  C10. \<^verbatim>\<open>prettyLabelFromTimezone\<close> returns a string for every string: \<^verbatim>\<open>split\<close>, \<^verbatim>\<open>pop\<close>
  and \<^verbatim>\<open>replace\<close> do not throw on a string, so the function has no error result. For a
  non-empty input the result is not empty. When the text after the last \<^verbatim>\<open>/\<close> is empty, as
  for an identifier that ends in \<^verbatim>\<open>/\<close>, the result is the whole input.
\<close>

theorem prettyLabelFromTimezone_nonempty:
  "(tz \<noteq> [] \<longrightarrow> prettyLabelFromTimezone tz \<noteq> [])
   \<and> (last_segment tz = [] \<longrightarrow> prettyLabelFromTimezone tz = tz)
   \<and> (tz \<noteq> [] \<and> last tz = SLASH \<longrightarrow> prettyLabelFromTimezone tz = tz)"
  by (auto simp: prettyLabel_segment last_segment_empty_iff replace_unit_def)

theorem prettyLabelFromTimezone_nonempty_witness:
  "js ''Etc/'' \<noteq> [] \<and> last (js ''Etc/'') = SLASH \<and> last_segment (js ''Etc/'') = []
   \<and> prettyLabelFromTimezone (js ''Etc/'') = js ''Etc/''
   \<and> prettyLabelFromTimezone (js ''Etc/'') \<noteq> []"
  using prettyLabelFromTimezone_nonempty [of "js ''Etc/''"]
  by (simp add: js_def unit_defs last_segment_def)

section \<open>\<^verbatim>\<open>sanitizeTestId\<close>\<close>

lemma sanitize_pipeline:
  "sanitizeTestId lc tz =
     map ascii_lower (filter is_kept (replace_ws_runs (replace_unit SLASH HYPHEN tz)))"
  by (simp add: sanitizeTestId_def strip_unkept_def toLowerCase_kept list_all_iff)

lemma sanitize_key_units: "list_all is_key_unit (sanitizeTestId lc tz)"
  by (simp add: sanitize_pipeline list_all_iff is_kept_lower)

lemma sanitize_fixes_keys:
  assumes k: "list_all is_key_unit s"
  shows "sanitizeTestId lc s = s"
proof -
  from k have slash: "replace_unit SLASH HYPHEN s = s"
    by (intro replace_unit_absent) (auto simp: list_all_iff dest: key_unit_facts)
  from k have ws: "replace_ws_runs s = s"
    by (intro replace_ws_runs_none) (auto simp: list_all_iff dest: key_unit_facts)
  from k have kept: "filter is_kept s = s"
    by (intro filter_True) (auto simp: list_all_iff dest: key_unit_facts)
  from k have lower: "map ascii_lower s = s"
    by (intro map_idI) (auto simp: list_all_iff ascii_lower_def dest: key_unit_facts)
  show ?thesis by (simp add: sanitize_pipeline slash ws kept lower)
qed

text \<open>Replacing runs of white space touches only white space and hyphens.\<close>

lemma filter_dropWhile_ws:
  "filter (\<lambda>c. is_kept c \<and> c \<noteq> HYPHEN) (dropWhile is_white_space cs)
   = filter (\<lambda>c. is_kept c \<and> c \<noteq> HYPHEN) cs"
  by (induction cs) (auto dest: white_space_not_kept)

lemma filter_replace_ws_runs:
  "filter (\<lambda>c. is_kept c \<and> c \<noteq> HYPHEN) (replace_ws_runs s)
   = filter (\<lambda>c. is_kept c \<and> c \<noteq> HYPHEN) s"
proof (induction s rule: replace_ws_runs.induct)
  case 1
  show ?case by simp
next
  case (2 c cs)
  show ?case
  proof (cases "is_white_space c")
    case True
    then have "\<not> is_kept c" by (rule white_space_not_kept)
    with True 2 show ?thesis by (simp add: filter_dropWhile_ws)
  next
    case False
    with 2 show ?thesis by simp
  qed
qed

lemma filter_replace_slash:
  "filter (\<lambda>c. is_kept c \<and> c \<noteq> HYPHEN) (replace_unit SLASH HYPHEN s)
   = filter (\<lambda>c. is_kept c \<and> c \<noteq> HYPHEN) s"
  by (induction s) (auto simp: replace_unit_def slash_not_kept)

lemma sanitize_letters:
  "filter (\<lambda>c. c \<noteq> HYPHEN) (sanitizeTestId lc tz)
   = map ascii_lower (filter (\<lambda>c. is_kept c \<and> c \<noteq> HYPHEN) tz)"
proof -
  have "filter (\<lambda>c. c \<noteq> HYPHEN) (map ascii_lower (filter is_kept xs))
        = map ascii_lower (filter (\<lambda>c. is_kept c \<and> c \<noteq> HYPHEN) xs)" for xs
    by (induction xs) (auto simp: ascii_lower_hyphen)
  then show ?thesis
    by (simp add: sanitize_pipeline filter_replace_ws_runs filter_replace_slash)
qed

text \<open>
  C8. \<^verbatim>\<open>sanitizeTestId\<close> is a function of the identifier alone, whatever the engine's case
  tables are: it replaces every \<^verbatim>\<open>/\<close> and every run of white space by a hyphen, keeps of
  the result the code units of \<^verbatim>\<open>[A-Za-z0-9-_]\<close> and turns \<^verbatim>\<open>A-Z\<close> into \<^verbatim>\<open>a-z\<close>. Its output
  holds only lowercase letters, digits, hyphens and underscores, so no \<^verbatim>\<open>/\<close> and no white
  space. Apart from hyphens, the output is the input's letters, digits and underscores,
  lowercased and in order. \<^verbatim>\<open>Australia/Brisbane\<close> gives \<^verbatim>\<open>australia-brisbane\<close>.
\<close>

theorem sanitizeTestId_key:
  "sanitizeTestId lc tz =
     map ascii_lower (strip_unkept (replace_ws_runs (replace_unit SLASH HYPHEN tz)))
   \<and> list_all is_key_unit (sanitizeTestId lc tz)
   \<and> list_all (\<lambda>c. c \<noteq> SLASH \<and> \<not> is_white_space c \<and> \<not> is_upper c) (sanitizeTestId lc tz)
   \<and> filter (\<lambda>c. c \<noteq> HYPHEN) (sanitizeTestId lc tz)
       = map ascii_lower (filter (\<lambda>c. is_kept c \<and> c \<noteq> HYPHEN) tz)
   \<and> sanitizeTestId lc (js ''Australia/Brisbane'') = js ''australia-brisbane''"
proof -
  have pipeline: "sanitizeTestId lc tz =
     map ascii_lower (strip_unkept (replace_ws_runs (replace_unit SLASH HYPHEN tz)))"
    by (simp add: sanitize_pipeline strip_unkept_def)
  have keys: "list_all is_key_unit (sanitizeTestId lc tz)"
    by (rule sanitize_key_units)
  then have clean:
    "list_all (\<lambda>c. c \<noteq> SLASH \<and> \<not> is_white_space c \<and> \<not> is_upper c) (sanitizeTestId lc tz)"
    by (auto simp: list_all_iff dest: key_unit_facts)
  have example: "sanitizeTestId lc (js ''Australia/Brisbane'') = js ''australia-brisbane''"
    by (simp add: sanitizeTestId_def toLowerCase_def strip_unkept_def replace_unit_def js_def
        unit_defs)
  from pipeline keys clean sanitize_letters example show ?thesis by blast
qed

theorem sanitizeTestId_key_witness:
  "sanitizeTestId (\<lambda>s. s) (js ''America/Port of  Spain!'') = js ''america-port-of-spain''
   \<and> list_all is_key_unit (sanitizeTestId (\<lambda>s. s) (js ''America/Port of  Spain!''))"
  using sanitizeTestId_key [of "\<lambda>s. s" "js ''America/Port of  Spain!''"]
  by (simp add: strip_unkept_def replace_unit_def js_def unit_defs is_key_unit_def)

text \<open>
  C9. \<^verbatim>\<open>sanitizeTestId\<close> is idempotent: a key is made of lowercase letters, digits, hyphens
  and underscores, and none of the four steps changes such a string.
\<close>

theorem sanitizeTestId_idempotent:
  "sanitizeTestId lc (sanitizeTestId lc s) = sanitizeTestId lc s"
  by (rule sanitize_fixes_keys) (rule sanitize_key_units)

theorem sanitizeTestId_idempotent_witness:
  "sanitizeTestId (\<lambda>s. s) (js ''Asia/Ho Chi Minh'') = js ''asia-ho-chi-minh''
   \<and> sanitizeTestId (\<lambda>s. s) (js ''asia-ho-chi-minh'') = js ''asia-ho-chi-minh''"
proof -
  have key: "sanitizeTestId (\<lambda>s. s) (js ''Asia/Ho Chi Minh'') = js ''asia-ho-chi-minh''"
    by (simp add: sanitizeTestId_def toLowerCase_def strip_unkept_def replace_unit_def js_def
        unit_defs)
  from sanitizeTestId_idempotent [of "\<lambda>s. s" "js ''Asia/Ho Chi Minh''"] key
  show ?thesis by simp
qed

section \<open>\<^verbatim>\<open>getAllTimeZones\<close>\<close>

lemma fallback_zones_distinct: "distinct fallback_zones"
  by (simp add: fallback_zones_def js_def)

lemma utc_in_fallback: "js ''UTC'' \<in> set fallback_zones"
  by (simp add: fallback_zones_def)

lemma default_in_fallback: "default_timezone \<in> set fallback_zones"
  by (simp add: fallback_zones_def default_timezone_def)

lemma getAllTimeZones_catalog: "Intl p \<noteq> IntlNull \<Longrightarrow> getAllTimeZones p = Inr (catalog p)"
  by (auto simp: catalog_def getAllTimeZones_def split: option.splits sum.splits)

lemma getAllTimeZones_null: "Intl p = IntlNull \<Longrightarrow> getAllTimeZones p = Inl TypeError"
  by (simp add: getAllTimeZones_def typeof_object_def)

lemma catalog_null: "Intl p = IntlNull \<Longrightarrow> catalog p = []"
  by (simp add: catalog_def getAllTimeZones_null)

lemma catalog_distinct: "enumeration_contract p \<Longrightarrow> distinct (catalog p)"
  by (auto simp: catalog_def getAllTimeZones_def enumeration_contract_def
      fallback_zones_distinct split: option.splits sum.splits)

lemma sample_intl: "Intl (sample_platform enum) = IntlObject"
  by (simp add: sample_platform_def)

lemma sample_catalog: "catalog (sample_platform None) = fallback_zones"
  by (simp add: catalog_def getAllTimeZones_def sample_platform_def typeof_object_def)

text \<open>
  C4, as the specification states it, says that the list \<^verbatim>\<open>getAllTimeZones\<close> returns is
  always non-empty and free of duplicates. The array of \<^verbatim>\<open>Intl.supportedValuesOf\<close> is
  returned as it is, with no check: an empty array comes back empty, and an array with an
  identifier twice comes back with it twice.
\<close>

theorem getAllTimeZones_unchecked_counterexample:
  "getAllTimeZones (sample_platform (Some (Inr []))) = Inr []
   \<and> getAllTimeZones (sample_platform (Some (Inr [js ''UTC'', js ''UTC''])))
       = Inr [js ''UTC'', js ''UTC'']
   \<and> \<not> distinct [js ''UTC'', js ''UTC'']"
  by (simp add: getAllTimeZones_def sample_platform_def typeof_object_def)

text \<open>
  C4, amended. When \<^verbatim>\<open>Intl\<close> is absent, when \<^verbatim>\<open>Intl.supportedValuesOf\<close> is not a function,
  and when the call throws, \<^verbatim>\<open>getAllTimeZones\<close> returns the fallback list, which is not
  empty, has no duplicates and contains \<^verbatim>\<open>UTC\<close>. When the call returns an array, the
  result is that array, in the platform's order and unchecked: it is non-empty and free of
  duplicates when the platform's array is. On a runtime whose \<^verbatim>\<open>Intl\<close> is absent or is an
  object the function does not throw.
\<close>

theorem getAllTimeZones_fallback:
  "(Intl p = IntlAbsent
      \<or> Intl p = IntlObject
          \<and> (supportedValuesOf p = None \<or> supportedValuesOf p = Some (Inl e))
        \<longrightarrow> getAllTimeZones p = Inr fallback_zones)
   \<and> (Intl p = IntlObject \<and> supportedValuesOf p = Some (Inr zs)
        \<longrightarrow> getAllTimeZones p = Inr zs)
   \<and> (Intl p \<noteq> IntlNull \<longrightarrow> (\<exists>zones. getAllTimeZones p = Inr zones))
   \<and> fallback_zones \<noteq> [] \<and> distinct fallback_zones \<and> js ''UTC'' \<in> set fallback_zones
   \<and> (Intl p \<noteq> IntlNull \<and> enumeration_contract p
        \<longrightarrow> (\<exists>zones. getAllTimeZones p = Inr zones \<and> zones \<noteq> [] \<and> distinct zones))"
proof -
  have fb: "getAllTimeZones p = Inr fallback_zones"
    if "Intl p = IntlAbsent
        \<or> Intl p = IntlObject
          \<and> (supportedValuesOf p = None \<or> supportedValuesOf p = Some (Inl e))"
    using that by (auto simp: getAllTimeZones_def typeof_object_def)
  have pl: "getAllTimeZones p = Inr zs"
    if "Intl p = IntlObject \<and> supportedValuesOf p = Some (Inr zs)"
    using that by (simp add: getAllTimeZones_def typeof_object_def)
  have total: "\<exists>zones. getAllTimeZones p = Inr zones" if "Intl p \<noteq> IntlNull"
    using that by (auto simp: getAllTimeZones_catalog)
  have ne: "fallback_zones \<noteq> []"
    by (simp add: fallback_zones_def)
  have "catalog p \<noteq> []" if "Intl p \<noteq> IntlNull" "enumeration_contract p"
    using that ne
    by (auto simp: catalog_def getAllTimeZones_def enumeration_contract_def
        split: option.splits sum.splits)
  then have good: "\<exists>zones. getAllTimeZones p = Inr zones \<and> zones \<noteq> [] \<and> distinct zones"
    if "Intl p \<noteq> IntlNull \<and> enumeration_contract p"
    using that by (auto simp: getAllTimeZones_catalog catalog_distinct)
  from fb pl total ne fallback_zones_distinct utc_in_fallback good show ?thesis by blast
qed

theorem getAllTimeZones_fallback_witness:
  "getAllTimeZones (sample_platform (Some (Inl PlatformError))) = Inr fallback_zones
   \<and> getAllTimeZones (sample_platform None) = Inr fallback_zones
   \<and> getAllTimeZones (sample_platform (Some (Inr [js ''Asia/Tokyo'', js ''UTC''])))
     = Inr [js ''Asia/Tokyo'', js ''UTC'']
   \<and> Intl (sample_platform (Some (Inr [js ''Asia/Tokyo'', js ''UTC'']))) \<noteq> IntlNull
   \<and> enumeration_contract (sample_platform (Some (Inr [js ''Asia/Tokyo'', js ''UTC''])))"
  using getAllTimeZones_fallback [of "sample_platform (Some (Inl PlatformError))" PlatformError]
    getAllTimeZones_fallback [of "sample_platform None"]
    getAllTimeZones_fallback
      [of "sample_platform (Some (Inr [js ''Asia/Tokyo'', js ''UTC'']))" _
        "[js ''Asia/Tokyo'', js ''UTC'']"]
  by (simp add: sample_platform_def enumeration_contract_def js_def)

section \<open>Rendering\<close>

lemma updateClock_frame:
  "selectedTimezone (fst (updateClock p now s)) = selectedTimezone s"
  "cityNameEl (fst (updateClock p now s)) = cityNameEl s"
  "coreCityButtons (fst (updateClock p now s)) = coreCityButtons s"
  "timezoneBarEl (fst (updateClock p now s)) = timezoneBarEl s"
  "interval (fst (updateClock p now s)) = interval s"
  by (simp_all add: updateClock_def split: sum.splits)

lemma mark_city_fields:
  "data_timezone (mark_city sel b) = data_timezone b"
  "listeners (mark_city sel b) = listeners b"
  "active (mark_city sel b) = (data_timezone b = Some sel)"
  by (simp_all add: mark_city_def)

lemma mark_tz_fields:
  "data_timezone (mark_tz sel b) = data_timezone b"
  "listeners (mark_tz sel b) = listeners b"
  "active (mark_tz sel b) = (data_timezone b = Some sel)"
  by (simp_all add: mark_tz_def)

lemma mark_city_twice: "mark_city sel (mark_city sel b) = mark_city sel b"
  by (simp add: mark_city_def)

lemma mark_tz_twice: "mark_tz sel (mark_tz sel b) = mark_tz sel b"
  by (simp add: mark_tz_def)

lemma selectTimezone_fields:
  "selectedTimezone (fst (selectTimezone p now tz s)) = tz"
  "cityNameEl (fst (selectTimezone p now tz s)) = prettyLabelFromTimezone tz"
  "coreCityButtons (fst (selectTimezone p now tz s)) = map (mark_city tz) (coreCityButtons s)"
  "timezoneBarEl (fst (selectTimezone p now tz s)) = map (mark_tz tz) (timezoneBarEl s)"
  "interval (fst (selectTimezone p now tz s)) = interval s"
  by (simp_all add: selectTimezone_def updateClock_frame updateActiveStates_def
      updateCityName_def)

text \<open>
  C6. \<^verbatim>\<open>updateClock\<close>, which the script calls at start and the interval timer calls every
  second, writes at most the clock and the date element: the selected time zone, the city
  label, every button of the top row and of the bar, and the timer are what they were.
  When the formatter throws it writes nothing.
\<close>

theorem updateClock_writes_clock_and_date_only:
  "selectedTimezone (fst (updateClock p now s)) = selectedTimezone s
   \<and> cityNameEl (fst (updateClock p now s)) = cityNameEl s
   \<and> controls (fst (updateClock p now s)) = controls s
   \<and> map active (controls (fst (updateClock p now s))) = map active (controls s)
   \<and> fst (updateClock p now s)
       = s\<lparr>clockEl := clockEl (fst (updateClock p now s)),
            dateEl := dateEl (fst (updateClock p now s))\<rparr>
   \<and> selectedTimezone (step p (now, Tick) s) = selectedTimezone s
   \<and> cityNameEl (step p (now, Tick) s) = cityNameEl s
   \<and> controls (step p (now, Tick) s) = controls s"
  by (simp add: updateClock_def step_def controls_def split: sum.splits)

theorem updateClock_writes_clock_and_date_only_witness:
  "selectedTimezone (fst (updateClock (sample_platform None) 1000
      (loaded (sample_platform None) 0 (sample_page [city_button ''UTC''])))) = default_timezone
   \<and> cityNameEl (fst (updateClock (sample_platform None) 1000
      (loaded (sample_platform None) 0 (sample_page [city_button ''UTC''])))) = js ''Brisbane''"
  using updateClock_writes_clock_and_date_only
    [of "sample_platform None" 1000
      "loaded (sample_platform None) 0 (sample_page [city_button ''UTC''])"]
  by (simp add: loaded_def init_def updateClock_def formatForTimezone_def sample_platform_def
      updateActiveStates_def updateCityName_def initCoreButtons_def buildTimezoneBar_def
      getAllTimeZones_def typeof_object_def script_start_def sample_page_def
      default_timezone_def prettyLabelFromTimezone_def pop_def replace_unit_def js_def
      unit_defs)

text \<open>
  C5. Selecting \<open>t\<close> twice in a row, with the clock at the same instant, leaves the state
  that selecting it once leaves, and ends the same way: the selected time zone is \<open>t\<close>,
  and the city label, the marking of every button and the clock and date texts are those
  of the first call.
\<close>

theorem selectTimezone_idempotent:
  "selectTimezone p now t (fst (selectTimezone p now t s)) = selectTimezone p now t s
   \<and> selectedTimezone (fst (selectTimezone p now t s)) = t"
  by (simp add: selectTimezone_def updateClock_def updateActiveStates_def updateCityName_def
      mark_city_twice mark_tz_twice split: sum.splits)

theorem selectTimezone_idempotent_witness:
  "selectedTimezone (fst (selectTimezone (sample_platform None) 0 (js ''UTC'')
      (fst (selectTimezone (sample_platform None) 0 (js ''UTC'')
        (script_start (sample_page [])))))) = js ''UTC''"
  using selectTimezone_idempotent
    [of "sample_platform None" 0 "js ''UTC''" "script_start (sample_page [])"]
  by simp

section \<open>What stays fixed after the script has run\<close>

lemma wired_loaded:
  assumes "Intl p \<noteq> IntlNull"
  shows "wired p pg (loaded p now pg)"
proof -
  have "wired p pg (updateActiveStates (updateCityName (initCoreButtons
          ((script_start pg)\<lparr>timezoneBarEl := map (new_tz_button p) (catalog p)\<rparr>))))"
    by (simp add: wired_def updateActiveStates_def updateCityName_def initCoreButtons_def
        script_start_def new_tz_button_def mark_city_fields mark_tz_fields comp_def)
  with assms show ?thesis
    by (auto simp: loaded_def init_def buildTimezoneBar_def getAllTimeZones_catalog wired_def
        updateClock_def split: sum.splits prod.splits option.splits)
qed

lemma wired_updateClock: "wired p pg s \<Longrightarrow> wired p pg (fst (updateClock q now s))"
  by (simp add: wired_def updateClock_frame)

lemma wired_selectTimezone: "wired p pg s \<Longrightarrow> wired p pg (fst (selectTimezone q now tz s))"
  by (simp add: wired_def selectTimezone_fields mark_city_fields mark_tz_fields comp_def)

lemma wired_run_listener: "wired p pg s \<Longrightarrow> wired p pg (run_listener q now btn l s)"
  by (auto simp: run_listener_def wired_selectTimezone split: listener.splits option.splits)

lemma wired_click: "wired p pg s \<Longrightarrow> wired p pg (click q now btn s)"
proof -
  have "wired p pg s \<Longrightarrow> wired p pg (fold (run_listener q now btn) ls s)" for ls
    by (induction ls arbitrary: s) (auto simp: wired_run_listener)
  then show "wired p pg s \<Longrightarrow> wired p pg (click q now btn s)"
    by (simp add: click_def)
qed

lemma wired_step: "wired p pg s \<Longrightarrow> wired p pg (step q ev s)"
  by (auto simp: step_def wired_click wired_updateClock split: prod.splits event.splits)

lemma wired_run: "wired p pg s \<Longrightarrow> wired p pg (run q evs s)"
proof -
  have "wired p pg s \<Longrightarrow> wired p pg (fold (step q) evs s)"
    by (induction evs arbitrary: s) (auto simp: wired_step)
  then show "wired p pg s \<Longrightarrow> wired p pg (run q evs s)"
    by (simp add: run_def)
qed

lemma wired_reachable: "Intl p \<noteq> IntlNull \<Longrightarrow> wired p pg (run p evs (loaded p now pg))"
  by (rule wired_run) (rule wired_loaded)

text \<open>When \<^verbatim>\<open>getAllTimeZones\<close> throws, \<^verbatim>\<open>init\<close> ends at its first call and no event changes
  the state any more.\<close>

lemma loaded_null: "Intl p = IntlNull \<Longrightarrow> loaded p now pg = script_start pg"
  by (simp add: loaded_def init_def buildTimezoneBar_def getAllTimeZones_null)

lemma stalled_start: "stalled (script_start pg)"
  by (simp add: stalled_def script_start_def list_all_iff)

lemma stalled_step: "stalled s \<Longrightarrow> step p ev s = s"
  by (auto simp: stalled_def step_def click_def list_all_length
      split: prod.splits event.splits)

lemma stalled_run: "stalled s \<Longrightarrow> run p evs s = s"
proof -
  have "stalled s \<Longrightarrow> fold (step p) evs s = s"
    by (induction evs) (simp_all add: stalled_step)
  then show "stalled s \<Longrightarrow> run p evs s = s"
    by (simp add: run_def)
qed

lemma reachable_null: "Intl p = IntlNull \<Longrightarrow> run p evs (loaded p now pg) = script_start pg"
  by (simp add: loaded_null stalled_run stalled_start)

lemma wired_lengths:
  assumes "wired p pg s"
  shows "length (timezoneBarEl s) = length (catalog p)"
    and "length (coreCityButtons s) = length (city_buttons pg)"
  using assms map_eq_imp_length_eq unfolding wired_def by fastforce+

lemma wired_zone_button:
  assumes "wired p pg s" and "i < length (timezoneBarEl s)"
  shows "listeners (timezoneBarEl s ! i) = [SelectCaptured (catalog p ! i)]"
proof -
  from assms have "map listeners (timezoneBarEl s) ! i
      = map (\<lambda>tz. [SelectCaptured tz]) (catalog p) ! i"
    by (simp add: wired_def)
  with assms wired_lengths(1) [OF assms(1)] show ?thesis by simp
qed

lemma wired_city_button:
  assumes "wired p pg s" and "i < length (coreCityButtons s)"
  shows "listeners (coreCityButtons s ! i) = [SelectOwn]"
    and "data_timezone (coreCityButtons s ! i) = data_timezone (city_buttons pg ! i)"
proof -
  from assms have "map listeners (coreCityButtons s) ! i
      = map (\<lambda>b. [SelectOwn]) (city_buttons pg) ! i"
    by (simp add: wired_def)
  with assms wired_lengths(2) [OF assms(1)] show "listeners (coreCityButtons s ! i) = [SelectOwn]"
    by simp
  from assms have "map data_timezone (coreCityButtons s) ! i
      = map data_timezone (city_buttons pg) ! i"
    by (simp add: wired_def)
  with assms wired_lengths(2) [OF assms(1)]
  show "data_timezone (coreCityButtons s ! i) = data_timezone (city_buttons pg ! i)"
    by simp
qed

section \<open>The selected time zone\<close>

lemma city_zones_member:
  "i < length (city_buttons pg) \<Longrightarrow> data_timezone (city_buttons pg ! i) = Some tz \<Longrightarrow> tz \<noteq> []
   \<Longrightarrow> tz \<in> set (city_zones pg)"
  by (force simp: city_zones_def List.map_filter_def image_iff in_set_conv_nth)

lemma click_zone_selects:
  assumes "wired p pg s" and "i < length (timezoneBarEl s)"
  shows "selectedTimezone (step p (now, ClickZone i) s) = catalog p ! i"
  using assms
  by (simp add: step_def click_def wired_zone_button run_listener_def selectTimezone_fields)

lemma click_city_selects:
  assumes "wired p pg s"
  shows "selectedTimezone (step p (now, ClickCity i) s) = selectedTimezone s
         \<or> selectedTimezone (step p (now, ClickCity i) s) \<in> set (city_zones pg)"
proof (cases "i < length (coreCityButtons s)")
  case True
  with assms wired_lengths(2) [OF assms] have "i < length (city_buttons pg)" by simp
  with assms True show ?thesis
    by (auto simp: step_def click_def wired_city_button run_listener_def selectTimezone_fields
        city_zones_member split: option.splits)
next
  case False
  then show ?thesis by (simp add: step_def)
qed

lemma step_selects:
  assumes "wired p pg s"
  shows "selectedTimezone (step p ev s)
         \<in> set (selectedTimezone s # catalog p @ city_zones pg)"
proof (cases ev)
  case (Pair now e)
  show ?thesis
  proof (cases e)
    case (ClickCity i)
    with Pair click_city_selects [OF assms, of now i] show ?thesis by auto
  next
    case (ClickZone i)
    show ?thesis
    proof (cases "i < length (timezoneBarEl s)")
      case True
      with assms wired_lengths(1) [OF assms] have "i < length (catalog p)" by simp
      with Pair ClickZone True click_zone_selects [OF assms True, of now] show ?thesis
        by simp
    next
      case False
      with Pair ClickZone show ?thesis by (simp add: step_def)
    qed
  next
    case Tick
    with Pair show ?thesis by (simp add: step_def updateClock_frame)
  qed
qed

lemma run_selects:
  assumes "wired p pg s"
    and "selectedTimezone s \<in> set (default_timezone # catalog p @ city_zones pg)"
  shows "selectedTimezone (fold (step p) evs s)
         \<in> set (default_timezone # catalog p @ city_zones pg)"
  using assms
proof (induction evs arbitrary: s)
  case Nil
  then show ?case by simp
next
  case (Cons ev evs)
  from step_selects [OF Cons.prems(1), of ev] Cons.prems(2)
  have "selectedTimezone (step p ev s)
        \<in> set (default_timezone # catalog p @ city_zones pg)"
    by auto
  with Cons.IH [OF wired_step [OF Cons.prems(1)]] show ?case by simp
qed

lemma loaded_selected: "selectedTimezone (loaded p now pg) = default_timezone"
  by (simp add: loaded_def init_def buildTimezoneBar_def updateClock_def updateActiveStates_def
      updateCityName_def initCoreButtons_def script_start_def
      split: sum.splits prod.splits option.splits)

lemma loaded_fields:
  assumes "Intl p \<noteq> IntlNull"
  shows "cityNameEl (loaded p now pg) = prettyLabelFromTimezone default_timezone"
    and "coreCityButtons (loaded p now pg)
      = map (\<lambda>b. mark_city default_timezone (b\<lparr>listeners := [SelectOwn]\<rparr>)) (city_buttons pg)"
    and "timezoneBarEl (loaded p now pg)
      = map (\<lambda>tz. mark_tz default_timezone (new_tz_button p tz)) (catalog p)"
  using assms
  by (simp_all add: loaded_def init_def buildTimezoneBar_def getAllTimeZones_catalog
      updateClock_def updateActiveStates_def updateCityName_def initCoreButtons_def
      script_start_def comp_def split: sum.splits prod.splits option.splits)

text \<open>
  C2, as the specification states it, says that no click on a rendered control takes the
  selected time zone out of the catalog. On a runtime without \<^verbatim>\<open>Intl.supportedValuesOf\<close> the
  catalog is the fallback list; with a top-row button for \<^verbatim>\<open>Africa/Cairo\<close> in the markup, a
  click on it selects \<^verbatim>\<open>Africa/Cairo\<close>, which the catalog does not have.
\<close>

theorem selectedTimezone_outside_catalog_counterexample:
  "selectedTimezone
     (run (sample_platform None) [(1000, ClickCity 0)]
        (loaded (sample_platform None) 0 (sample_page [city_button ''Africa/Cairo''])))
     = js ''Africa/Cairo''
   \<and> js ''Africa/Cairo''
     \<notin> set (catalog (sample_platform None))"
  by (simp add: run_def step_def click_def run_listener_def selectTimezone_fields
      loaded_fields sample_intl sample_page_def city_button_def mark_city_fields
      sample_catalog fallback_zones_def js_def)

text \<open>
  C2, amended. At every state reached from the loaded page by clicks and timer ticks, the
  selected time zone is the default \<^verbatim>\<open>Australia/Brisbane\<close>, an identifier of the catalog, or
  the non-empty \<^verbatim>\<open>data-timezone\<close> of a top-row button of the markup. A click on a button of
  the time zone bar always selects an identifier of the catalog. So the selected time zone
  is in the catalog at every reachable state when the catalog has the default, as the
  fallback list does, and has the \<^verbatim>\<open>data-timezone\<close> of every top-row button. The bar holds
  one button per identifier of the catalog, in the catalog's order; this and the statement
  on its clicks are for a runtime on which \<^verbatim>\<open>getAllTimeZones\<close> returns, that is, whose
  \<^verbatim>\<open>Intl\<close> is not \<^verbatim>\<open>null\<close>.
\<close>

theorem selectedTimezone_from_controls:
  "selectedTimezone (run p evs (loaded p now pg))
     \<in> set (default_timezone # catalog p @ city_zones pg)
   \<and> (Intl p \<noteq> IntlNull \<and> i < length (timezoneBarEl (run p evs (loaded p now pg)))
        \<longrightarrow> selectedTimezone (step p (t, ClickZone i) (run p evs (loaded p now pg)))
              \<in> set (catalog p))
   \<and> (Intl p \<noteq> IntlNull
        \<longrightarrow> map data_timezone (timezoneBarEl (run p evs (loaded p now pg)))
              = map Some (catalog p))
   \<and> (default_timezone \<in> set (catalog p)
        \<and> set (city_zones pg) \<subseteq> set (catalog p)
        \<longrightarrow> selectedTimezone (run p evs (loaded p now pg)) \<in> set (catalog p))
   \<and> default_timezone \<in> set fallback_zones"
proof -
  let ?s = "run p evs (loaded p now pg)"
  have src: "selectedTimezone ?s \<in> set (default_timezone # catalog p @ city_zones pg)"
  proof (cases "Intl p = IntlNull")
    case True
    then show ?thesis
      by (simp add: reachable_null script_start_def)
  next
    case False
    show ?thesis
      unfolding run_def
      by (rule run_selects [OF wired_loaded [OF False]]) (simp add: loaded_selected)
  qed
  have bar: "selectedTimezone (step p (t, ClickZone i) ?s) \<in> set (catalog p)"
    if "Intl p \<noteq> IntlNull \<and> i < length (timezoneBarEl ?s)"
  proof -
    from that have w: "wired p pg ?s"
      by (simp add: wired_reachable)
    from that wired_lengths(1) [OF w] show ?thesis
      by (simp add: click_zone_selects [OF w])
  qed
  have built: "map data_timezone (timezoneBarEl ?s) = map Some (catalog p)"
    if "Intl p \<noteq> IntlNull"
    using wired_reachable [OF that, of pg evs now] by (simp add: wired_def)
  have cat: "selectedTimezone ?s \<in> set (catalog p)"
    if "default_timezone \<in> set (catalog p)
        \<and> set (city_zones pg) \<subseteq> set (catalog p)"
    using that src by auto
  from src bar built cat default_in_fallback show ?thesis by blast
qed

theorem selectedTimezone_from_controls_witness:
  "selectedTimezone
     (run (sample_platform None) [(1000, ClickCity 0), (2000, Tick), (3000, ClickZone 2)]
        (loaded (sample_platform None) 0 (sample_page [city_button ''Europe/Paris''])))
     = js ''Asia/Tokyo''
   \<and> default_timezone \<in> set (catalog (sample_platform None))
   \<and> set (city_zones (sample_page [city_button ''Europe/Paris'']))
       \<subseteq> set (catalog (sample_platform None))
   \<and> js ''Asia/Tokyo'' \<in> set (catalog (sample_platform None))"
proof -
  have sel: "selectedTimezone
     (run (sample_platform None) [(1000, ClickCity 0), (2000, Tick), (3000, ClickZone 2)]
        (loaded (sample_platform None) 0 (sample_page [city_button ''Europe/Paris''])))
     = js ''Asia/Tokyo''"
    by (simp add: run_def step_def click_def run_listener_def selectTimezone_fields
        updateClock_frame loaded_fields sample_intl sample_page_def city_button_def
        mark_city_fields mark_tz_fields new_tz_button_def sample_catalog fallback_zones_def)
  have dflt: "default_timezone \<in> set (catalog (sample_platform None))"
    by (simp add: sample_catalog default_in_fallback)
  have city: "set (city_zones (sample_page [city_button ''Europe/Paris'']))
       \<subseteq> set (catalog (sample_platform None))"
    by (simp add: city_zones_def sample_page_def city_button_def sample_catalog
        fallback_zones_def js_def)
  have tokyo: "js ''Asia/Tokyo'' \<in> set (catalog (sample_platform None))"
    by (simp add: sample_catalog fallback_zones_def)
  from selectedTimezone_from_controls
    [where p = "sample_platform None"
      and evs = "[(1000, ClickCity 0), (2000, Tick), (3000, ClickZone 2)]" and now = 0
      and pg = "sample_page [city_button ''Europe/Paris'']"] sel dflt city tokyo
  show ?thesis by (simp add: sample_intl)
qed

section \<open>The active controls\<close>

lemma new_tz_button_fields:
  "data_timezone (new_tz_button p tz) = Some tz"
  "listeners (new_tz_button p tz) = [SelectCaptured tz]"
  "active (new_tz_button p tz) = False"
  by (simp_all add: new_tz_button_def)

lemma marked_tz_iff:
  "list_all (\<lambda>b. active b = (data_timezone b = Some t)) (map (mark_tz t) bs)"
  by (simp add: list_all_iff mark_tz_fields)

lemma marked_city_iff:
  "list_all (\<lambda>b. active b = (data_timezone b = Some t)) (map (mark_city t) bs)"
  by (simp add: list_all_iff mark_city_fields)

lemma count_marked_tz:
  "length (filter active (map (mark_tz t) bs))
   = length (filter (\<lambda>z. z = Some t) (map data_timezone bs))"
  by (induction bs) (simp_all add: mark_tz_fields)

lemma count_marked_city:
  "length (filter active (map (mark_city t) bs))
   = length (filter (\<lambda>z. z = Some t) (map data_timezone bs))"
  by (induction bs) (simp_all add: mark_city_fields)

lemma count_data_timezone:
  "length (filter (\<lambda>z. z = Some t) (map data_timezone bs))
   = length (filter (\<lambda>b. data_timezone b = Some t) bs)"
  by (induction bs) simp_all

lemma distinct_count_one:
  "distinct zs \<Longrightarrow> t \<in> set zs \<Longrightarrow> length (filter (\<lambda>z. z = Some t) (map Some zs)) = 1"
proof (induction zs)
  case Nil
  then show ?case by simp
next
  case (Cons z zs)
  show ?case
  proof (cases "z = t")
    case True
    with Cons.prems have "t \<notin> set zs" by simp
    then have "filter (\<lambda>z. z = Some t) (map Some zs) = []"
      by (auto simp: filter_empty_conv)
    with True show ?thesis by simp
  next
    case False
    with Cons show ?thesis by simp
  qed
qed

text \<open>
  C1, as the specification states it, says that after \<^verbatim>\<open>select(t)\<close> exactly one of all the
  selectable controls is active. \<^verbatim>\<open>updateActiveStates\<close> marks the buttons of the top row and
  those of the bar alike. With a top-row button for \<^verbatim>\<open>UTC\<close> in the markup, and \<^verbatim>\<open>UTC\<close> in the
  catalog, selecting \<^verbatim>\<open>UTC\<close> leaves two active controls: that button and the bar's.
\<close>

theorem selectTimezone_two_active_counterexample:
  "js ''UTC'' \<in> set (catalog (sample_platform None))
   \<and> length (filter active (controls (fst (selectTimezone (sample_platform None) 1000 (js ''UTC'')
        (loaded (sample_platform None) 0 (sample_page [city_button ''UTC'']))))))
     = 2"
  by (simp add: controls_def selectTimezone_fields loaded_fields sample_intl mark_city_fields
      mark_tz_fields new_tz_button_fields sample_page_def city_button_def sample_catalog
      fallback_zones_def js_def)

text \<open>
  C1, amended. Let \<open>t\<close> be an identifier of the catalog, the catalog being free of
  duplicates as the platform's enumeration is, and let \<^verbatim>\<open>selectTimezone(t)\<close> run in a state
  reached from the loaded page. Afterwards a control, of the top row or of the bar, is
  active exactly when its \<^verbatim>\<open>data-timezone\<close> is \<open>t\<close>; the marking of all others is cleared.
  Exactly one button of the time zone bar is active. The active controls in all are that
  button and the top-row buttons of the markup whose \<^verbatim>\<open>data-timezone\<close> is \<open>t\<close>.
\<close>

theorem selectTimezone_marks_controls:
  assumes "enumeration_contract p" and "t \<in> set (catalog p)"
    and "s = run p evs (loaded p now0 pg)"
    and "s' = fst (selectTimezone p now t s)"
  shows "list_all (\<lambda>b. active b = (data_timezone b = Some t)) (controls s')
    \<and> length (filter active (timezoneBarEl s')) = 1
    \<and> length (filter active (controls s'))
        = 1 + length (filter (\<lambda>b. data_timezone b = Some t) (city_buttons pg))
    \<and> selectedTimezone s' = t"
proof -
  from assms(2) have "Intl p \<noteq> IntlNull"
    by (auto simp: catalog_null)
  with assms(3) have w: "wired p pg s"
    by (simp add: wired_reachable)
  from assms(4) have core: "coreCityButtons s' = map (mark_city t) (coreCityButtons s)"
    and bar: "timezoneBarEl s' = map (mark_tz t) (timezoneBarEl s)"
    and sel: "selectedTimezone s' = t"
    by (simp_all add: selectTimezone_fields)
  have iff: "list_all (\<lambda>b. active b = (data_timezone b = Some t)) (controls s')"
    by (simp add: controls_def core bar marked_tz_iff marked_city_iff)
  from w have dt: "map data_timezone (timezoneBarEl s) = map Some (catalog p)"
    and dc: "map data_timezone (coreCityButtons s) = map data_timezone (city_buttons pg)"
    by (simp_all add: wired_def)
  have "length (filter active (timezoneBarEl s'))
      = length (filter (\<lambda>z. z = Some t) (map data_timezone (timezoneBarEl s)))"
    unfolding bar by (rule count_marked_tz)
  also have "\<dots> = length (filter (\<lambda>z. z = Some t) (map Some (catalog p)))"
    by (simp only: dt)
  also have "\<dots> = 1"
    by (rule distinct_count_one [OF catalog_distinct [OF assms(1)] assms(2)])
  finally have one: "length (filter active (timezoneBarEl s')) = 1" .
  have "length (filter active (coreCityButtons s'))
      = length (filter (\<lambda>z. z = Some t) (map data_timezone (coreCityButtons s)))"
    unfolding core by (rule count_marked_city)
  also have "\<dots> = length (filter (\<lambda>z. z = Some t) (map data_timezone (city_buttons pg)))"
    by (simp only: dc)
  also have "\<dots> = length (filter (\<lambda>b. data_timezone b = Some t) (city_buttons pg))"
    by (rule count_data_timezone)
  finally have "length (filter active (coreCityButtons s'))
      = length (filter (\<lambda>b. data_timezone b = Some t) (city_buttons pg))" .
  with one have total: "length (filter active (controls s'))
      = 1 + length (filter (\<lambda>b. data_timezone b = Some t) (city_buttons pg))"
    by (simp add: controls_def)
  from iff one total sel show ?thesis by blast
qed

theorem selectTimezone_marks_controls_witness:
  "enumeration_contract (sample_platform None)
   \<and> js ''UTC'' \<in> set (catalog (sample_platform None))
   \<and> length (filter active (controls (fst (selectTimezone (sample_platform None) 2000 (js ''UTC'')
        (run (sample_platform None) [(1000, ClickCity 0)]
          (loaded (sample_platform None) 0 (sample_page [city_button ''Asia/Tokyo''])))))))
     = 1
   \<and> length (filter active (timezoneBarEl (fst (selectTimezone (sample_platform None) 2000
        (js ''UTC'')
        (run (sample_platform None) [(1000, ClickCity 0)]
          (loaded (sample_platform None) 0 (sample_page [city_button ''Asia/Tokyo''])))))))
     = 1"
proof -
  have contract: "enumeration_contract (sample_platform None)"
    by (simp add: enumeration_contract_def sample_platform_def)
  have utc: "js ''UTC'' \<in> set (catalog (sample_platform None))"
    by (simp add: sample_catalog fallback_zones_def)
  have none: "filter (\<lambda>b. data_timezone b = Some (js ''UTC''))
      (city_buttons (sample_page [city_button ''Asia/Tokyo''])) = []"
    by (simp add: sample_page_def city_button_def js_def)
  from selectTimezone_marks_controls [OF contract utc refl refl,
      where evs = "[(1000, ClickCity 0)]" and ?now0.0 = 0
        and pg = "sample_page [city_button ''Asia/Tokyo'']" and now = 2000]
    contract utc none
  show ?thesis by simp
qed

end
